theory Spec2Isabelle
  imports Main
begin

section \<open>Data model\<close>

subsection \<open>Tensors\<close>

text \<open>
  A tensor is its shape together with its elements in row-major order. The element type is
  left open: the code under verification never does arithmetic on elements itself, it only
  reshapes tensors and hands them to the layers, the learning rule and the optimizer.
\<close>

record 'a tensor =
  shape :: "nat list"
  elems :: "'a list"

definition numel :: "'a tensor \<Rightarrow> nat" where
  "numel t = prod_list (shape t)"

subsection \<open>Errors\<close>

text \<open>
  The exceptions the code can raise: \<open>KeyError\<close> from the lookup in the rule dict,
  \<open>TypeError\<close> from \<open>_prepare_data\<close>, \<open>IndexError\<close> from list indexing,
  \<open>AttributeError\<close> from reading \<open>.weight\<close> of a layer without one,
  \<open>RuntimeError\<close> from torch (a \<open>view\<close> whose sizes do not fit, a forward pass on an input of
  the wrong shape), \<open>ValueError\<close> from numpy's \<open>reshape\<close>, and \<open>StopIteration\<close> from \<open>next\<close> on
  an empty data loader.
\<close>

datatype error =
    KeyError string
  | TypeError string
  | IndexError
  | AttributeError
  | RuntimeError
  | ValueError
  | StopIteration

definition bind_result :: "error + 'a \<Rightarrow> ('a \<Rightarrow> error + 'b) \<Rightarrow> error + 'b" where
  "bind_result r f = (case r of Inl e \<Rightarrow> Inl e | Inr v \<Rightarrow> f v)"

subsection \<open>Layers and models\<close>

text \<open>
  \<open>type(layer)\<close> is compared with \<open>torch.nn.Linear\<close> and \<open>torch.nn.Conv2d\<close> exactly, so every
  other class (subclasses included) is an \<open>OtherLayer\<close>, which carries its class name and its
  \<open>weight\<close> attribute when it has one.
\<close>

datatype 'a layer =
    Linear "'a tensor" "'a tensor option"
  | Conv2d "'a tensor" "'a tensor option" "nat \<times> nat" "nat \<times> nat" "nat \<times> nat" "nat \<times> nat"
  | OtherLayer string "'a tensor option"

fun weight :: "'a layer \<Rightarrow> 'a tensor option" where
  "weight (Linear w b) = Some w"
| "weight (Conv2d w b k s p d) = Some w"
| "weight (OtherLayer c w) = w"

fun set_weight :: "'a tensor \<Rightarrow> 'a layer \<Rightarrow> 'a layer" where
  "set_weight w' (Linear w b) = Linear w' b"
| "set_weight w' (Conv2d w b k s p d) = Conv2d w' b k s p d"
| "set_weight w' (OtherLayer c w) = OtherLayer c (Some w')"

fun is_Linear :: "'a layer \<Rightarrow> bool" where
  "is_Linear (Linear w b) = True"
| "is_Linear l = False"

fun is_Conv2d :: "'a layer \<Rightarrow> bool" where
  "is_Conv2d (Conv2d w b k s p d) = True"
| "is_Conv2d l = False"

text \<open>
  A model is what \<open>model.named_children()\<close> yields, in order, and the training flag that
  \<open>model.train()\<close> sets.
\<close>

record 'a model =
  named_children :: "(string \<times> 'a layer) list"
  training :: bool

definition children :: "'a model \<Rightarrow> 'a layer list" where
  "children m = map snd (named_children m)"

subsection \<open>Python lists\<close>

text \<open>\<open>xs[:k]\<close>: a negative \<open>k\<close> counts from the end.\<close>

definition py_slice_to :: "'a list \<Rightarrow> int \<Rightarrow> 'a list" where
  "py_slice_to xs k =
     (if k < 0 then take (nat (int (length xs) + k)) xs else take (nat k) xs)"

text \<open>\<open>xs[i]\<close>: a negative \<open>i\<close> counts from the end, out of range raises.\<close>

definition py_index :: "'a list \<Rightarrow> int \<Rightarrow> error + 'a" where
  "py_index xs i =
     (if 0 \<le> i \<and> i < int (length xs) then Inr (xs ! nat i)
      else if i < 0 \<and> - int (length xs) \<le> i then Inr (xs ! nat (int (length xs) + i))
      else Inl IndexError)"

section \<open>The Hebbian trainable layers (\<open>HebbianTrainer.__init__\<close>)\<close>

text \<open>
  \<open>Layer = namedtuple('Layer', ['idx', 'name', 'layer'])\<close>. The field \<open>layer\<close> is a reference
  to the child object of the model, not a copy of it: it is the position of that child in
  \<open>named_children\<close>, to be read in the model as it is at the time of use.
\<close>

record Layer =
  idx :: nat
  name :: string
  layer :: nat

text \<open>The loop over \<open>enumerate(...)\<close> that appends to \<open>self.layers\<close>; \<open>i\<close> is the running index.\<close>

fun scan_layers :: "string list \<Rightarrow> nat \<Rightarrow> (string \<times> 'a layer) list \<Rightarrow> Layer list" where
  "scan_layers freeze i [] = []"
| "scan_layers freeze i ((nm, l) # rest) =
     (if (is_Linear l \<or> is_Conv2d l) \<and> nm \<notin> set freeze
      then \<lparr>idx = i, name = nm, layer = i\<rparr> # scan_layers freeze (Suc i) rest
      else scan_layers freeze (Suc i) rest)"

definition get_freeze_layers :: "string list option \<Rightarrow> string list" where
  "get_freeze_layers freeze_layers = (case freeze_layers of None \<Rightarrow> [] | Some fl \<Rightarrow> fl)"

definition trainable_layers :: "'a model \<Rightarrow> int \<Rightarrow> string list option \<Rightarrow> Layer list" where
  "trainable_layers m supervised_from freeze_layers =
     scan_layers (get_freeze_layers freeze_layers) 0
       (py_slice_to (named_children m) supervised_from)"

subsection \<open>Reshaping\<close>

text \<open>
  \<open>t.view(*sizes)\<close>, with at most one size \<open>-1\<close> that torch infers. It raises when a size
  is below \<open>-1\<close>, when more than one is \<open>-1\<close>, when the inferred size is ambiguous (the other
  sizes multiply to zero) or not a whole number, and when the sizes do not multiply to the
  number of elements. The elements keep their row-major order. (Strides are not modelled: a
  tensor is taken to be contiguous.)
\<close>

definition view :: "'a tensor \<Rightarrow> int list \<Rightarrow> error + 'a tensor" where
  "view t sizes =
     (if (\<exists>s \<in> set sizes. s < - 1) \<or> 1 < count_list sizes (- 1) then Inl RuntimeError
      else if - 1 \<in> set sizes then
        (let known = prod_list (map nat (filter (\<lambda>s. s \<noteq> - 1) sizes)) in
         if known = 0 \<or> numel t mod known \<noteq> 0 then Inl RuntimeError
         else Inr (t\<lparr>shape := map (\<lambda>s. if s = - 1 then numel t div known else nat s) sizes\<rparr>))
      else if prod_list (map nat sizes) = numel t then Inr (t\<lparr>shape := map nat sizes\<rparr>)
      else Inl RuntimeError)"

text \<open>\<open>x.view((x.shape[0], -1))\<close>: \<open>x.shape[0]\<close> raises on a tensor of no dimension.\<close>

definition flatten_batch :: "'a tensor \<Rightarrow> error + 'a tensor" where
  "flatten_batch x =
     (case shape x of [] \<Rightarrow> Inl IndexError | n # rest \<Rightarrow> view x [int n, - 1])"

subsection \<open>Logging\<close>

text \<open>
  A log record is the level, the format string and the arguments of one \<open>logging\<close> call. A
  layer passed as an argument is formatted by torch; the record keeps its position in the model.
\<close>

datatype level = DEBUG | INFO | ERROR

datatype log_arg =
    StrArg string
  | NumArg nat
  | ShapeArg "nat list"
  | NamesArg "string list"
  | LayerArg nat

type_synonym log_record = "level \<times> string \<times> log_arg list"

subsection \<open>What the code calls but does not define\<close>

text \<open>
  The forward transformation of a layer, \<open>lyr(x)\<close>, belongs to torch; it depends on the layer
  (its weights included) and on the training flag of the model, and can raise.
  \<open>utils.extract_image_patches\<close> is not among the sources: it is a parameter too.
\<close>

record 'a lib =
  forward :: "bool \<Rightarrow> 'a layer \<Rightarrow> 'a tensor \<Rightarrow> error + 'a tensor"
  extract_image_patches ::
    "'a tensor \<Rightarrow> nat \<times> nat \<Rightarrow> nat \<times> nat \<Rightarrow> nat \<times> nat \<Rightarrow> nat \<times> nat \<Rightarrow> error + 'a tensor"

text \<open>
  A learning rule: \<open>update(inputs, weights)\<close> returns the weight delta (or raises),
  \<open>init_layers(layers)\<close> initialises the weights of the layers it is given, in place.
\<close>

record 'a LearningRule =
  update :: "'a tensor \<Rightarrow> 'a tensor \<Rightarrow> error + 'a tensor"
  init_layers :: "Layer list \<Rightarrow> 'a model \<Rightarrow> 'a model"

text \<open>\<open>learning_rule: Union[LearningRule, Dict[str, LearningRule]]\<close>; a dict in insertion order.\<close>

datatype 'a learning_rule =
    Single "'a LearningRule"
  | Dict "(string \<times> 'a LearningRule) list"

text \<open>
  The optimizer's arithmetic: the new value of a weight tensor, from the old value and the
  delta.
\<close>

record 'a Optimizer =
  apply_delta :: "'a tensor \<Rightarrow> 'a tensor \<Rightarrow> 'a tensor"

text \<open>
  Modelled from the spec: \<open>optimizer.local_step(d_p, layer_name=name)\<close>, of
  \<open>pytorch_hebbian.optimizers\<close>, which is not among the sources. "Applies a named layer's
  weight delta in place": the weight of the child of that name is replaced by what the
  optimizer's arithmetic makes of it and the delta; no other child changes.
\<close>

definition local_step :: "'a Optimizer \<Rightarrow> 'a tensor \<Rightarrow> string \<Rightarrow> 'a model \<Rightarrow> 'a model" where
  "local_step optimizer d_p layer_name m =
     m\<lparr>named_children :=
         map (\<lambda>(nm, l). if nm = layer_name
                then (case weight l of
                        None \<Rightarrow> (nm, l)
                      | Some w \<Rightarrow> (nm, set_weight (apply_delta optimizer w d_p) l))
                else (nm, l))
           (named_children m)\<rparr>"

section \<open>The data preparer (\<open>HebbianTrainer._prepare_data\<close>)\<close>

text \<open>The loop \<open>for lyr in layers[:layer_index]: x = lyr(x)\<close>; it stops at the first raise.\<close>

fun run_layers :: "'a lib \<Rightarrow> bool \<Rightarrow> 'a layer list \<Rightarrow> 'a tensor \<Rightarrow> error + 'a tensor" where
  "run_layers lib tr [] x = Inr x"
| "run_layers lib tr (lyr # rest) x =
     (case forward lib tr lyr x of
        Inl e \<Rightarrow> Inl e
      | Inr x' \<Rightarrow> run_layers lib tr rest x')"

text \<open>"Get the input right before the layer".\<close>

definition input_before :: "'a lib \<Rightarrow> 'a tensor \<Rightarrow> 'a model \<Rightarrow> int \<Rightarrow> error + 'a tensor" where
  "input_before lib inputs m layer_index =
     (if layer_index = 0 then Inr inputs
      else run_layers lib (training m) (py_slice_to (children m) layer_index) inputs)"

text \<open>"Get the layer weight and input image patches", by the type of the layer.\<close>

fun weight_and_patches :: "'a lib \<Rightarrow> 'a layer \<Rightarrow> 'a tensor \<Rightarrow> error + ('a tensor \<times> 'a tensor)" where
  "weight_and_patches lib (Linear w b) x = Inr (x, w)"
| "weight_and_patches lib (Conv2d w b kernel_size stride padding dilation) x =
     (case view w [- 1, int (fst kernel_size * snd kernel_size)] of
        Inl e \<Rightarrow> Inl e
      | Inr w' \<Rightarrow>
          (case extract_image_patches lib x kernel_size stride padding dilation of
             Inl e \<Rightarrow> Inl e
           | Inr x' \<Rightarrow> Inr (x', w')))"
| "weight_and_patches lib (OtherLayer c w) x = Inl (TypeError ''Unsupported layer type!'')"

definition prepare_data ::
  "'a lib \<Rightarrow> 'a tensor \<Rightarrow> 'a model \<Rightarrow> int \<Rightarrow> (error + ('a tensor \<times> 'a tensor)) \<times> log_record list"
where
  "prepare_data lib inputs m layer_index =
     (case py_index (children m) layer_index of
        Inl e \<Rightarrow> (Inl e, [])
      | Inr lyr \<Rightarrow>
          (case input_before lib inputs m layer_index of
             Inl e \<Rightarrow> (Inl e, [])
           | Inr x \<Rightarrow>
               (case weight_and_patches lib lyr x of
                  Inl e \<Rightarrow> (Inl e, [])
                | Inr (x', w) \<Rightarrow>
                    (case flatten_batch x' of
                       Inl e \<Rightarrow> (Inl e, [])
                     | Inr x'' \<Rightarrow>
                         (Inr (x'', w),
                          [(DEBUG, ''Prepared inputs and weights with shapes {} and {}.'',
                            [ShapeArg (shape x''), ShapeArg (shape w)])])))))"

section \<open>The per-batch update (\<open>HebbianTrainer.create_hebbian_trainer\<close>)\<close>

text \<open>
  The rule for a layer: the rule itself when one rule was given, the entry of the layer's name
  when a dict was given. A missing entry is logged as an error and the \<open>KeyError\<close> is raised
  again.
\<close>

definition resolve_rule ::
  "'a learning_rule \<Rightarrow> string \<Rightarrow> (error + 'a LearningRule) \<times> log_record list"
where
  "resolve_rule lr layer_name =
     (case lr of
        Dict d \<Rightarrow>
          (case map_of d layer_name of
             None \<Rightarrow>
               (Inl (KeyError layer_name),
                [(ERROR, ''No learning rule was specified for layer '{}'!'', [StrArg layer_name])])
           | Some rule \<Rightarrow> (Inr rule, []))
      | Single rule \<Rightarrow> (Inr rule, []))"

text \<open>
  One iteration of the loop over \<open>self.layers\<close>, for the record \<open>r\<close>: the error raised if any,
  the model as the iteration leaves it, and what the iteration logs. \<open>layer r\<close> is read in the
  current model; \<open>layer.weight\<close> exists for the layers the records are made for.
\<close>

definition update_layer ::
  "'a lib \<Rightarrow> 'a learning_rule \<Rightarrow> 'a Optimizer \<Rightarrow> 'a tensor \<Rightarrow> Layer \<Rightarrow> 'a model
     \<Rightarrow> error option \<times> 'a model \<times> log_record list"
where
  "update_layer lib lr optimizer x r m =
     (case py_index (children m) (int (layer r)) of
        Inl e \<Rightarrow> (Some e, m, [])
      | Inr lyr \<Rightarrow>
          (case weight lyr of
             None \<Rightarrow> (Some AttributeError, m, [])
           | Some lw \<Rightarrow>
               (let log1 = [(DEBUG, ''Updating layer '{}' with shape {}.'',
                             [LayerArg (layer r), ShapeArg (shape lw)])]
                in case prepare_data lib x m (int (idx r)) of
                     (Inl e, log2) \<Rightarrow> (Some e, m, log1 @ log2)
                   | (Inr (inputs, weights), log2) \<Rightarrow>
                       (case resolve_rule lr (name r) of
                          (Inl e, log3) \<Rightarrow> (Some e, m, log1 @ log2 @ log3)
                        | (Inr rule, log3) \<Rightarrow>
                            (case update rule inputs weights of
                               Inl e \<Rightarrow> (Some e, m, log1 @ log2 @ log3)
                             | Inr d_p \<Rightarrow>
                                 (case view d_p (map int (shape lw)) of
                                    Inl e \<Rightarrow> (Some e, m, log1 @ log2 @ log3)
                                  | Inr d_p' \<Rightarrow>
                                      (None, local_step optimizer d_p' (name r) m,
                                       log1 @ log2 @ log3)))))))"

text \<open>"Train layer per layer": the loop stops at the first error, with the model as it is then.\<close>

fun update_layers ::
  "'a lib \<Rightarrow> 'a learning_rule \<Rightarrow> 'a Optimizer \<Rightarrow> 'a tensor \<Rightarrow> Layer list \<Rightarrow> 'a model
     \<Rightarrow> error option \<times> 'a model \<times> log_record list"
where
  "update_layers lib lr optimizer x [] m = (None, m, [])"
| "update_layers lib lr optimizer x (r # rs) m =
     (case update_layer lib lr optimizer x r m of
        (Some e, m', lg) \<Rightarrow> (Some e, m', lg)
      | (None, m', lg) \<Rightarrow>
          (case update_layers lib lr optimizer x rs m' of
             (res, m'', lg') \<Rightarrow> (res, m'', lg @ lg')))"

text \<open>
  \<open>_update(_, batch)\<close>: the value returned or the error raised, the model afterwards and the
  log. \<open>prepare_batch\<close> and \<open>output_transform\<close> are the parameters of
  \<open>create_hebbian_trainer\<close>; \<open>torch.no_grad()\<close> changes no value.
\<close>

definition batch_update ::
  "'a lib \<Rightarrow> 'a learning_rule \<Rightarrow> 'a Optimizer \<Rightarrow> ('b \<Rightarrow> 'a tensor \<times> 'y)
     \<Rightarrow> ('a tensor \<Rightarrow> 'y \<Rightarrow> 'o) \<Rightarrow> Layer list \<Rightarrow> 'a model \<Rightarrow> 'b
     \<Rightarrow> (error + 'o) \<times> 'a model \<times> log_record list"
where
  "batch_update lib lr optimizer prepare_batch output_transform lyrs m batch =
     (case prepare_batch batch of
        (x, y) \<Rightarrow>
          (case update_layers lib lr optimizer x lyrs (m\<lparr>training := True\<rparr>) of
             (Some e, m', lg) \<Rightarrow> (Inl e, m', lg)
           | (None, m', lg) \<Rightarrow> (Inr (output_transform x y), m', lg)))"

section \<open>Construction of the trainer (\<open>HebbianTrainer.__init__\<close>)\<close>

record 'a HebbianTrainer =
  model :: "'a model"
  learning_rule :: "'a learning_rule"
  optimizer :: "'a Optimizer"
  supervised_from :: int
  freeze_layers :: "string list"
  layers :: "Layer list"

text \<open>\<open>for rule in self.learning_rule.values(): rule.init_layers(self.layers)\<close>.\<close>

fun init_rules :: "'a LearningRule list \<Rightarrow> Layer list \<Rightarrow> 'a model \<Rightarrow> 'a model" where
  "init_rules [] lyrs m = m"
| "init_rules (rule # rules) lyrs m = init_rules rules lyrs (init_layers rule lyrs m)"

definition HebbianTrainer_init ::
  "'a model \<Rightarrow> 'a learning_rule \<Rightarrow> 'a Optimizer \<Rightarrow> int \<Rightarrow> string list option
     \<Rightarrow> 'a HebbianTrainer \<times> log_record list"
where
  "HebbianTrainer_init m lr opt sup_from freeze =
     (let lyrs = trainable_layers m sup_from freeze;
          m' = (case lr of
                  Dict d \<Rightarrow> init_rules (map snd d) lyrs m
                | Single rule \<Rightarrow> init_layers rule lyrs m)
      in (\<lparr>model = m', learning_rule = lr, optimizer = opt, supervised_from = sup_from,
           freeze_layers = get_freeze_layers freeze, layers = lyrs\<rparr>,
          [(INFO, ''Received {} trainable layer(s): {}.'',
            [NumArg (length lyrs), NamesArg (map name lyrs)])]))"

text \<open>
  The engine of a constructed trainer runs \<open>_update\<close> with the defaults of
  \<open>create_hebbian_trainer\<close>: \<open>prepare_batch\<close> is \<open>utils.prepare_batch\<close> (not among the
  sources, a parameter here) and \<open>output_transform\<close> is \<open>lambda x, y: 0\<close>.
\<close>

definition trainer_update ::
  "'a lib \<Rightarrow> ('b \<Rightarrow> 'a tensor \<times> 'y) \<Rightarrow> 'a HebbianTrainer \<Rightarrow> 'b
     \<Rightarrow> (error + int) \<times> 'a HebbianTrainer \<times> log_record list"
where
  "trainer_update lib prepare_batch t batch =
     (case batch_update lib (learning_rule t) (optimizer t) prepare_batch (\<lambda>x y. 0)
             (layers t) (model t) batch of
        (res, m', lg) \<Rightarrow> (res, t\<lparr>model := m'\<rparr>, lg))"

section \<open>The replay of the forward pass, as the specification words it\<close>

text \<open>
  Nothing is applied for index 0; for a larger index the specification "sequentially applies
  every layer with index \<open>< layer_index\<close> to the batch inputs, in the model's native order":
  the layer at position \<open>k\<close> is applied to what the layers before it gave.
\<close>

fun replay :: "'a lib \<Rightarrow> bool \<Rightarrow> 'a layer list \<Rightarrow> nat \<Rightarrow> 'a tensor \<Rightarrow> error + 'a tensor" where
  "replay lib tr ls 0 x = Inr x"
| "replay lib tr ls (Suc k) x = bind_result (replay lib tr ls k x) (forward lib tr (ls ! k))"

section \<open>The single-layer engine (\<open>HebbianEngine.train\<close>)\<close>












section \<open>The last \<open>Linear\<close> child of a model\<close>


section \<open>Example models\<close>

subsection \<open>A small convolutional model\<close>

definition w_conv :: "int tensor" where
  "w_conv = \<lparr>shape = [1, 1, 1, 1], elems = [2]\<rparr>"

definition w_fc1 :: "int tensor" where
  "w_fc1 = \<lparr>shape = [1, 1], elems = [3]\<rparr>"

definition w_fc2 :: "int tensor" where
  "w_fc2 = \<lparr>shape = [1, 1], elems = [5]\<rparr>"

definition conv_net :: "int model" where
  "conv_net =
     \<lparr>named_children =
        [(''conv'', Conv2d w_conv None (1, 1) (1, 1) (0, 0) (1, 1)),
         (''relu'', OtherLayer ''ReLU'' None),
         (''fc1'', Linear w_fc1 None),
         (''fc2'', Linear w_fc2 None)],
      training = False\<rparr>"

definition two_dense :: "int model" where
  "two_dense =
     \<lparr>named_children = [(''fc1'', Linear w_fc1 None), (''fc2'', Linear w_fc2 None)],
      training = False\<rparr>"

subsection \<open>A library for layers of one feature\<close>

text \<open>
  What torch computes for the layers of the example models: a \<open>Linear\<close> of one input and one
  output feature and a \<open>Conv2d\<close> of one channel and a 1 by 1 kernel, both without bias,
  multiply every element by their single weight; \<open>ReLU\<close> cuts at zero. The patches of a
  one-channel input under a 1 by 1 kernel are its elements, one per patch.
\<close>

definition scale :: "int \<Rightarrow> int tensor \<Rightarrow> int tensor" where
  "scale c x = x\<lparr>elems := map (\<lambda>v. c * v) (elems x)\<rparr>"

fun unit_forward :: "bool \<Rightarrow> int layer \<Rightarrow> int tensor \<Rightarrow> error + int tensor" where
  "unit_forward tr (Linear w b) x =
     (case (shape w, elems w, b, shape x) of
        ([Suc 0, Suc 0], [c], None, n # rest) \<Rightarrow>
          (if last (n # rest) = 1 then Inr (scale c x) else Inl RuntimeError)
      | _ \<Rightarrow> Inl RuntimeError)"
| "unit_forward tr (Conv2d w b k s p d) x =
     (case (shape w, elems w, b, shape x) of
        ([Suc 0, Suc 0, Suc 0, Suc 0], [c], None, [n, Suc 0, h, wd]) \<Rightarrow>
          (if k = (1, 1) \<and> s = (1, 1) \<and> p = (0, 0) \<and> d = (1, 1) then Inr (scale c x)
           else Inl RuntimeError)
      | _ \<Rightarrow> Inl RuntimeError)"
| "unit_forward tr (OtherLayer c w) x =
     (if c = ''ReLU'' then Inr (x\<lparr>elems := map (max 0) (elems x)\<rparr>) else Inl RuntimeError)"

definition unit_patches ::
  "int tensor \<Rightarrow> nat \<times> nat \<Rightarrow> nat \<times> nat \<Rightarrow> nat \<times> nat \<Rightarrow> nat \<times> nat \<Rightarrow> error + int tensor"
where
  "unit_patches x k s p d =
     (case shape x of
        [n, Suc 0, h, wd] \<Rightarrow>
          (if k = (1, 1) \<and> s = (1, 1) \<and> p = (0, 0) \<and> d = (1, 1)
           then Inr (x\<lparr>shape := [n * h * wd, 1, 1]\<rparr>)
           else Inl RuntimeError)
      | _ \<Rightarrow> Inl RuntimeError)"

definition unit_lib :: "int lib" where
  "unit_lib = \<lparr>forward = unit_forward, extract_image_patches = unit_patches\<rparr>"


definition conv_dense :: "int model" where
  "conv_dense =
     \<lparr>named_children =
        [(''conv'', Conv2d w_conv None (1, 1) (1, 1) (0, 0) (1, 1)),
         (''fc'', Linear w_fc1 None)],
      training = False\<rparr>"

definition image_batch :: "int tensor" where
  "image_batch = \<lparr>shape = [2, 1, 1, 1], elems = [1, - 2]\<rparr>"

subsection \<open>A dense layer fed with sequences\<close>

text \<open>A \<open>Linear\<close> of three input features on a batch of two sequences of four steps each.\<close>

definition w_seq :: "int tensor" where
  "w_seq = \<lparr>shape = [2, 3], elems = [1, 0, 0, 0, 1, 0]\<rparr>"

definition seq_model :: "int model" where
  "seq_model = \<lparr>named_children = [(''fc'', Linear w_seq None)], training = False\<rparr>"

definition seq_batch :: "int tensor" where
  "seq_batch = \<lparr>shape = [2, 4, 3], elems = replicate 24 1\<rparr>"

subsection \<open>A rule and an optimizer on integers\<close>

text \<open>
  The rule's delta has the shape of the weights, every entry the sum of the prepared inputs;
  it initialises nothing. The optimizer adds the delta to the weights.
\<close>

definition sum_rule :: "int LearningRule" where
  "sum_rule =
     \<lparr>update = (\<lambda>x w. Inr (w\<lparr>elems := map (\<lambda>v. sum_list (elems x)) (elems w)\<rparr>)),
      init_layers = (\<lambda>lyrs m. m)\<rparr>"

definition add_optimizer :: "int Optimizer" where
  "add_optimizer = \<lparr>apply_delta = (\<lambda>w d. w\<lparr>elems := map2 (+) (elems w) (elems d)\<rparr>)\<rparr>"

text \<open>A rule that initialises every weight entry of the layers it is given to \<open>c\<close>.\<close>

definition fill_layers :: "int \<Rightarrow> Layer list \<Rightarrow> int model \<Rightarrow> int model" where
  "fill_layers c lyrs m =
     m\<lparr>named_children :=
         map (\<lambda>(nm, l). if nm \<in> set (map name lyrs)
                then (case weight l of
                        None \<Rightarrow> (nm, l)
                      | Some w \<Rightarrow> (nm, set_weight (w\<lparr>elems := map (\<lambda>v. c) (elems w)\<rparr>) l))
                else (nm, l))
           (named_children m)\<rparr>"

definition fill_rule :: "int \<Rightarrow> int LearningRule" where
  "fill_rule c = \<lparr>update = update sum_rule, init_layers = fill_layers c\<rparr>"

definition w_out :: "int tensor" where
  "w_out = \<lparr>shape = [1, 1], elems = [1]\<rparr>"

definition three_dense :: "int model" where
  "three_dense =
     \<lparr>named_children =
        [(''fc1'', Linear w_fc1 None), (''fc2'', Linear w_fc2 None), (''out'', Linear w_out None)],
      training = False\<rparr>"

definition unit_batch :: "int tensor" where
  "unit_batch = \<lparr>shape = [1, 1], elems = [1]\<rparr>"

definition r_fc1 :: Layer where
  "r_fc1 = \<lparr>idx = 0, name = ''fc1'', layer = 0\<rparr>"

definition r_fc2 :: Layer where
  "r_fc2 = \<lparr>idx = 1, name = ''fc2'', layer = 1\<rparr>"

definition r_out :: Layer where
  "r_out = \<lparr>idx = 2, name = ''out'', layer = 2\<rparr>"

text \<open>\<open>three_dense\<close> in training mode, after the delta \<open>[[1]]\<close> was added to \<open>fc1\<close>.\<close>

definition three_dense_fc1_updated :: "int model" where
  "three_dense_fc1_updated =
     \<lparr>named_children =
        [(''fc1'', Linear \<lparr>shape = [1, 1], elems = [4]\<rparr> None),
         (''fc2'', Linear w_fc2 None), (''out'', Linear w_out None)],
      training = True\<rparr>"

definition prepared_log :: "log_record list" where
  "prepared_log =
     [(DEBUG, ''Prepared inputs and weights with shapes {} and {}.'',
       [ShapeArg [1, 1], ShapeArg [1, 1]])]"

text \<open>\<open>three_dense\<close> after one update with \<open>sum_rule\<close> on the batch \<open>[[1]]\<close>.\<close>

definition three_dense_updated :: "int model" where
  "three_dense_updated =
     \<lparr>named_children =
        [(''fc1'', Linear \<lparr>shape = [1, 1], elems = [4]\<rparr> None),
         (''fc2'', Linear \<lparr>shape = [1, 1], elems = [9]\<rparr> None),
         (''out'', Linear w_out None)],
      training = True\<rparr>"

definition updating_log :: "nat \<Rightarrow> log_record list" where
  "updating_log i =
     (DEBUG, ''Updating layer '{}' with shape {}.'', [LayerArg i, ShapeArg [1, 1]]) # prepared_log"

text \<open>\<open>three_dense\<close> with the weights of its trainable layers set to 9.\<close>

definition three_dense_nines :: "int model" where
  "three_dense_nines =
     \<lparr>named_children =
        [(''fc1'', Linear \<lparr>shape = [1, 1], elems = [9]\<rparr> None),
         (''fc2'', Linear \<lparr>shape = [1, 1], elems = [9]\<rparr> None),
         (''out'', Linear w_out None)],
      training = False\<rparr>"

subsection \<open>An engine on integers\<close>





section \<open>Properties of the trainable-layer list\<close>

lemma scan_layers_set:
  "r \<in> set (scan_layers fr k xs) \<longleftrightarrow>
     (\<exists>i < length xs. r = \<lparr>idx = k + i, name = fst (xs ! i), layer = k + i\<rparr>
        \<and> (is_Linear (snd (xs ! i)) \<or> is_Conv2d (snd (xs ! i))) \<and> fst (xs ! i) \<notin> set fr)"
proof (induction xs arbitrary: k)
  case Nil
  then show ?case by simp
next
  case (Cons x xs)
  obtain nm l where x: "x = (nm, l)" by (cases x)
  have split_ex: "\<And>P. (\<exists>i < Suc (length xs). P i) \<longleftrightarrow> P 0 \<or> (\<exists>i < length xs. P (Suc i))"
    by (metis less_Suc_eq_0_disj)
  show ?case
    unfolding x by (simp add: Cons.IH split_ex)
qed

lemma scan_layers_idx_lower:
  "r \<in> set (scan_layers fr k xs) \<Longrightarrow> k \<le> idx r"
  by (auto simp: scan_layers_set)

lemma scan_layers_sorted:
  "sorted_wrt (<) (map idx (scan_layers fr k xs))"
proof (induction xs arbitrary: k)
  case Nil
  then show ?case by simp
next
  case (Cons x xs)
  obtain nm l where x: "x = (nm, l)" by (cases x)
  have "\<And>r. r \<in> set (scan_layers fr (Suc k) xs) \<Longrightarrow> k < idx r"
    using scan_layers_idx_lower by fastforce
  then show ?case
    unfolding x by (simp add: Cons.IH)
qed

lemma py_slice_to_prefix:
  "i < length (py_slice_to xs k) \<Longrightarrow> i < length xs \<and> py_slice_to xs k ! i = xs ! i"
  by (simp add: py_slice_to_def split: if_splits)

text \<open>
  C7. Whatever the model, \<open>supervised_from\<close> and \<open>freeze_layers\<close>: no record carries a frozen
  name; every record points at a child of the model that is a \<open>Linear\<close> or a \<open>Conv2d\<close> and has
  the record's name, at the record's index; and the indices are strictly increasing.
\<close>

theorem trainable_layers_invariant:
  "(\<forall>r \<in> set (trainable_layers m sup_from freeze).
       name r \<notin> set (get_freeze_layers freeze)
     \<and> idx r < length (named_children m)
     \<and> layer r = idx r
     \<and> fst (named_children m ! idx r) = name r
     \<and> (is_Linear (snd (named_children m ! idx r)) \<or> is_Conv2d (snd (named_children m ! idx r))))
   \<and> sorted_wrt (<) (map idx (trainable_layers m sup_from freeze))"
proof -
  let ?xs = "py_slice_to (named_children m) sup_from"
  have "\<And>i. i < length ?xs \<Longrightarrow> i < length (named_children m) \<and> ?xs ! i = named_children m ! i"
    by (rule py_slice_to_prefix)
  then show ?thesis
    unfolding trainable_layers_def
    by (auto simp: scan_layers_set scan_layers_sorted)
qed

theorem trainable_layers_invariant_witness:
  "trainable_layers conv_net 3 (Some [''conv'']) = [\<lparr>idx = 2, name = ''fc1'', layer = 2\<rparr>]
   \<and> ''fc1'' \<notin> set (get_freeze_layers (Some [''conv'']))
   \<and> (2::nat) < length (named_children conv_net)
   \<and> fst (named_children conv_net ! 2) = ''fc1''
   \<and> is_Linear (snd (named_children conv_net ! 2))
   \<and> sorted_wrt (<) (map idx (trainable_layers conv_net 3 (Some [''conv''])))"
proof -
  let ?r = "\<lparr>idx = 2, name = ''fc1'', layer = 2\<rparr>"
  have eq: "trainable_layers conv_net 3 (Some [''conv'']) = [?r]"
    by (simp add: trainable_layers_def conv_net_def py_slice_to_def get_freeze_layers_def)
  note inv = trainable_layers_invariant [of conv_net 3 "Some [''conv'']"]
  have mem: "?r \<in> set (trainable_layers conv_net 3 (Some [''conv'']))"
    by (simp add: eq)
  have "name ?r \<notin> set (get_freeze_layers (Some [''conv'']))
     \<and> idx ?r < length (named_children conv_net)
     \<and> layer ?r = idx ?r
     \<and> fst (named_children conv_net ! idx ?r) = name ?r
     \<and> (is_Linear (snd (named_children conv_net ! idx ?r))
          \<or> is_Conv2d (snd (named_children conv_net ! idx ?r)))"
    using inv mem by blast
  moreover have "\<not> is_Conv2d (snd (named_children conv_net ! 2))"
    by (simp add: conv_net_def)
  moreover have "sorted_wrt (<) (map idx (trainable_layers conv_net 3 (Some [''conv''])))"
    using inv by blast
  ultimately show ?thesis
    using eq by simp
qed

subsection \<open>The default \<open>supervised_from = -1\<close>\<close>

lemma scan_layers_enumerate:
  "scan_layers fr k xs =
     map (\<lambda>(i, nm, l). \<lparr>idx = i, name = nm, layer = i\<rparr>)
       (filter (\<lambda>(i, nm, l). (is_Linear l \<or> is_Conv2d l) \<and> nm \<notin> set fr) (enumerate k xs))"
  by (induction fr k xs rule: scan_layers.induct) simp_all

lemma py_slice_to_minus_one: "py_slice_to xs (- 1) = butlast xs"
  by (simp add: py_slice_to_def butlast_conv_take nat_diff_distrib')

text \<open>
  C2, as the code has it. With \<open>supervised_from = -1\<close> the slice \<open>[:-1]\<close> drops the last child
  of the model: with no frozen layers, the records are the \<open>Linear\<close> and \<open>Conv2d\<close> children
  other than the last child, in order, each with its name and its index. A record of the last
  child never appears. A negative \<open>supervised_from\<close> in general leaves out that many children
  at the end.
\<close>

theorem trainable_layers_default_drops_last:
  "trainable_layers m (- 1) None =
     map (\<lambda>(i, nm, l). \<lparr>idx = i, name = nm, layer = i\<rparr>)
       (filter (\<lambda>(i, nm, l). is_Linear l \<or> is_Conv2d l)
          (enumerate 0 (butlast (named_children m))))
   \<and> (\<forall>r \<in> set (trainable_layers m (- 1) None). Suc (idx r) < length (named_children m))
   \<and> (\<forall>k. 0 < k \<longrightarrow>
         trainable_layers m (- int k) None =
           scan_layers [] 0 (take (length (named_children m) - k) (named_children m)))"
proof -
  have a: "trainable_layers m (- 1) None =
     map (\<lambda>(i, nm, l). \<lparr>idx = i, name = nm, layer = i\<rparr>)
       (filter (\<lambda>(i, nm, l). is_Linear l \<or> is_Conv2d l)
          (enumerate 0 (butlast (named_children m))))"
    by (simp add: trainable_layers_def get_freeze_layers_def py_slice_to_minus_one
        scan_layers_enumerate)
  have b: "\<forall>r \<in> set (trainable_layers m (- 1) None). Suc (idx r) < length (named_children m)"
    by (auto simp: trainable_layers_def py_slice_to_minus_one scan_layers_set)
  have c: "\<forall>k. 0 < k \<longrightarrow>
         trainable_layers m (- int k) None =
           scan_layers [] 0 (take (length (named_children m) - k) (named_children m))"
    by (simp add: trainable_layers_def get_freeze_layers_def py_slice_to_def nat_diff_distrib')
  from a b c show ?thesis by blast
qed

theorem trainable_layers_default_drops_last_witness:
  "trainable_layers conv_net (- 1) None =
     [\<lparr>idx = 0, name = ''conv'', layer = 0\<rparr>, \<lparr>idx = 2, name = ''fc1'', layer = 2\<rparr>]
   \<and> trainable_layers conv_net (- 2) None = [\<lparr>idx = 0, name = ''conv'', layer = 0\<rparr>]"
proof -
  note drops = trainable_layers_default_drops_last [of conv_net]
  have k: "(0::nat) < 2" by simp
  have "trainable_layers conv_net (- int 2) None =
      scan_layers [] 0 (take (length (named_children conv_net) - 2) (named_children conv_net))"
    using drops k by blast
  then have two: "trainable_layers conv_net (- 2) None = [\<lparr>idx = 0, name = ''conv'', layer = 0\<rparr>]"
    by (simp add: conv_net_def)
  have "trainable_layers conv_net (- 1) None =
     map (\<lambda>(i, nm, l). \<lparr>idx = i, name = nm, layer = i\<rparr>)
       (filter (\<lambda>(i, nm, l). is_Linear l \<or> is_Conv2d l)
          (enumerate 0 (butlast (named_children conv_net))))"
    using drops by blast
  then have one: "trainable_layers conv_net (- 1) None =
     [\<lparr>idx = 0, name = ''conv'', layer = 0\<rparr>, \<lparr>idx = 2, name = ''fc1'', layer = 2\<rparr>]"
    by (simp add: conv_net_def)
  from one two show ?thesis by blast
qed

text \<open>
  The statement of the specification fails: in a model of two dense layers the last one, \<open>fc2\<close>,
  is a \<open>Linear\<close> child with no record.
\<close>

theorem trainable_layers_default_counterexample:
  "is_Linear (snd (named_children two_dense ! 1))
   \<and> \<lparr>idx = 1, name = ''fc2'', layer = 1\<rparr> \<notin> set (trainable_layers two_dense (- 1) None)
   \<and> trainable_layers two_dense (- 1) None = [\<lparr>idx = 0, name = ''fc1'', layer = 0\<rparr>]"
  by (simp add: two_dense_def trainable_layers_def py_slice_to_def get_freeze_layers_def)

section \<open>The replay of the data preparer\<close>

lemma run_layers_append:
  "run_layers lib tr (xs @ ys) x = bind_result (run_layers lib tr xs x) (run_layers lib tr ys)"
  by (induction xs arbitrary: x) (simp_all add: bind_result_def split: sum.splits)

lemma run_layers_take:
  "k \<le> length ls \<Longrightarrow> run_layers lib tr (take k ls) x = replay lib tr ls k x"
proof (induction k)
  case 0
  then show ?case by simp
next
  case (Suc k)
  then have "take (Suc k) ls = take k ls @ [ls ! k]"
    by (simp add: take_Suc_conv_app_nth)
  with Suc show ?case
    by (simp add: run_layers_append bind_result_def split: sum.splits)
qed

lemma input_before_replay:
  assumes "0 \<le> i" and "i < int (length (children m))"
  shows "input_before lib inputs m i = replay lib (training m) (children m) (nat i) inputs"
proof (cases "i = 0")
  case True
  then show ?thesis by (simp add: input_before_def)
next
  case False
  with assms have "py_slice_to (children m) i = take (nat i) (children m)"
    by (simp add: py_slice_to_def)
  with assms False show ?thesis
    by (simp add: input_before_def run_layers_take)
qed

lemma prepare_data_fst:
  "fst (prepare_data lib inputs m i) =
     bind_result (py_index (children m) i) (\<lambda>lyr.
       bind_result (input_before lib inputs m i) (\<lambda>a.
         bind_result (weight_and_patches lib lyr a) (\<lambda>(x', w).
           bind_result (flatten_batch x') (\<lambda>x''. Inr (x'', w)))))"
  by (simp add: prepare_data_def bind_result_def split: sum.splits prod.splits)

text \<open>
  C4. For an index of a layer of the model, the activation the data preparer computes is the
  specification's replay: the inputs unchanged for index 0, otherwise the forward
  transformations of all children before the index, trainable or not, applied in order; the
  prepared pair is made from that activation. In a model \<open>[Conv2d, Linear]\<close> the prepared input
  of the \<open>Linear\<close> layer is the flattened forward output of the \<open>Conv2d\<close>.
\<close>

theorem prepare_data_replays_forward:
  "(0 \<le> i \<and> i < int (length (children m)) \<longrightarrow>
      input_before lib inputs m i = replay lib (training m) (children m) (nat i) inputs
    \<and> fst (prepare_data lib inputs m i) =
        bind_result (replay lib (training m) (children m) (nat i) inputs) (\<lambda>a.
          bind_result (weight_and_patches lib (children m ! nat i) a) (\<lambda>(x', w).
            bind_result (flatten_batch x') (\<lambda>x''. Inr (x'', w)))))
   \<and> input_before lib inputs m 0 = Inr inputs
   \<and> (children m = [Conv2d cw cb k s p d, Linear w b] \<longrightarrow>
        fst (prepare_data lib inputs m 1) =
          bind_result (forward lib (training m) (Conv2d cw cb k s p d) inputs) (\<lambda>a.
            bind_result (flatten_batch a) (\<lambda>x. Inr (x, w))))"
proof -
  have a: "input_before lib inputs m i = replay lib (training m) (children m) (nat i) inputs
    \<and> fst (prepare_data lib inputs m i) =
        bind_result (replay lib (training m) (children m) (nat i) inputs) (\<lambda>a.
          bind_result (weight_and_patches lib (children m ! nat i) a) (\<lambda>(x', w).
            bind_result (flatten_batch x') (\<lambda>x''. Inr (x'', w))))"
    if "0 \<le> i" and "i < int (length (children m))"
  proof -
    from that have "py_index (children m) i = Inr (children m ! nat i)"
      by (simp add: py_index_def)
    with that show ?thesis
      by (simp add: prepare_data_fst input_before_replay bind_result_def)
  qed
  have b: "input_before lib inputs m 0 = Inr inputs"
    by (simp add: input_before_def)
  have c: "fst (prepare_data lib inputs m 1) =
          bind_result (forward lib (training m) (Conv2d cw cb k s p d) inputs) (\<lambda>a.
            bind_result (flatten_batch a) (\<lambda>x. Inr (x, w)))"
    if "children m = [Conv2d cw cb k s p d, Linear w b]"
    using that
    by (simp add: prepare_data_fst py_index_def input_before_def py_slice_to_def
        bind_result_def split: sum.splits)
  from a b c show ?thesis by blast
qed

theorem prepare_data_replays_forward_witness:
  "input_before unit_lib image_batch conv_net 2 = Inr \<lparr>shape = [2, 1, 1, 1], elems = [2, 0]\<rparr>
   \<and> replay unit_lib False (children conv_net) 2 image_batch
       = Inr \<lparr>shape = [2, 1, 1, 1], elems = [2, 0]\<rparr>
   \<and> fst (prepare_data unit_lib image_batch conv_net 2)
       = Inr (\<lparr>shape = [2, 1], elems = [2, 0]\<rparr>, w_fc1)
   \<and> fst (prepare_data unit_lib image_batch conv_dense 1)
       = Inr (\<lparr>shape = [2, 1], elems = [2, - 4]\<rparr>, w_fc1)"
proof -
  note replays = prepare_data_replays_forward [of 2 conv_net unit_lib image_batch]
  have rp: "replay unit_lib False (children conv_net) 2 image_batch
       = Inr \<lparr>shape = [2, 1, 1, 1], elems = [2, 0]\<rparr>"
    by (simp add: numeral_2_eq_2 conv_net_def children_def unit_lib_def image_batch_def
        w_conv_def scale_def bind_result_def)
  have rng: "(0::int) \<le> 2 \<and> 2 < int (length (children conv_net))"
    by (simp add: conv_net_def children_def)
  have tr: "training conv_net = False"
    by (simp add: conv_net_def)
  from replays rng have
    ib: "input_before unit_lib image_batch conv_net 2 =
          replay unit_lib (training conv_net) (children conv_net) (nat 2) image_batch"
    and pd: "fst (prepare_data unit_lib image_batch conv_net 2) =
        bind_result (replay unit_lib (training conv_net) (children conv_net) (nat 2) image_batch)
          (\<lambda>a. bind_result (weight_and_patches unit_lib (children conv_net ! nat 2) a)
            (\<lambda>(x', w). bind_result (flatten_batch x') (\<lambda>x''. Inr (x'', w))))"
    by blast+
  have one: "input_before unit_lib image_batch conv_net 2
       = Inr \<lparr>shape = [2, 1, 1, 1], elems = [2, 0]\<rparr>"
    using ib rp tr by simp
  have "children conv_net ! nat 2 = Linear w_fc1 None"
    by (simp add: conv_net_def children_def)
  then have two: "fst (prepare_data unit_lib image_batch conv_net 2)
       = Inr (\<lparr>shape = [2, 1], elems = [2, 0]\<rparr>, w_fc1)"
    using pd rp tr by (simp add: bind_result_def flatten_batch_def view_def numel_def)
  have "children conv_dense = [Conv2d w_conv None (1, 1) (1, 1) (0, 0) (1, 1), Linear w_fc1 None]"
    by (simp add: conv_dense_def children_def)
  with prepare_data_replays_forward
         [of 0 conv_dense unit_lib image_batch w_conv None "(1, 1)" "(1, 1)" "(0, 0)" "(1, 1)"
            w_fc1 None]
  have "fst (prepare_data unit_lib image_batch conv_dense 1) =
          bind_result (forward unit_lib (training conv_dense)
                         (Conv2d w_conv None (1, 1) (1, 1) (0, 0) (1, 1)) image_batch)
            (\<lambda>a. bind_result (flatten_batch a) (\<lambda>x. Inr (x, w_fc1)))"
    by blast
  then have three: "fst (prepare_data unit_lib image_batch conv_dense 1)
       = Inr (\<lparr>shape = [2, 1], elems = [2, - 4]\<rparr>, w_fc1)"
    by (simp add: unit_lib_def image_batch_def w_conv_def scale_def bind_result_def
        flatten_batch_def view_def numel_def)
  from one rp two three show ?thesis by blast
qed

section \<open>The shapes the data preparer returns\<close>

lemma view_rows:
  "view t [int n, - 1] = Inr t' \<Longrightarrow>
     0 < n \<and> numel t mod n = 0 \<and> shape t' = [n, numel t div n] \<and> elems t' = elems t"
  by (auto simp: view_def Let_def split: if_splits)

lemma view_cols:
  "view t [- 1, int c] = Inr t' \<Longrightarrow>
     0 < c \<and> numel t mod c = 0 \<and> shape t' = [numel t div c, c] \<and> elems t' = elems t"
  by (auto simp: view_def Let_def split: if_splits)

lemma flatten_batch_shape:
  "flatten_batch a = Inr x \<Longrightarrow>
     \<exists>n rest. shape a = n # rest \<and> 0 < n \<and> shape x = [n, numel a div n] \<and> elems x = elems a"
  by (auto simp: flatten_batch_def split: list.splits dest: view_rows)

lemma prepare_data_Inr:
  assumes "fst (prepare_data lib inputs m i) = Inr (x, w)"
  obtains lyr a x' where "py_index (children m) i = Inr lyr"
    and "input_before lib inputs m i = Inr a"
    and "weight_and_patches lib lyr a = Inr (x', w)"
    and "flatten_batch x' = Inr x"
  using assms
  by (auto simp: prepare_data_def split: sum.splits prod.splits)

text \<open>
  C3, as the code has it. When the data preparer returns a pair for a dense layer, the weight
  view is the layer's weight itself and the prepared input is the replayed activation
  reshaped to \<open>[N, numel / N]\<close>; for a convolutional layer the weight view has the shape
  \<open>[numel / (kH * kW), kH * kW]\<close> and the prepared input is the patch tensor reshaped to
  \<open>[P, numel / P]\<close>, \<open>P\<close> its first dimension. The second dimensions agree exactly when the
  activation has \<open>in_features\<close> elements per sample (dense), or the patch tensor \<open>kH * kW\<close>
  elements per row (convolutional): nothing in the preparer makes them agree.
\<close>

theorem prepare_data_shapes:
  assumes "fst (prepare_data lib inputs m i) = Inr (x, w)"
    and "py_index (children m) i = Inr lyr"
  shows "(\<forall>lw b. lyr = Linear lw b \<longrightarrow>
            w = lw
          \<and> (\<exists>a n rest. input_before lib inputs m i = Inr a \<and> shape a = n # rest
                \<and> shape x = [n, numel a div n] \<and> elems x = elems a
                \<and> (shape x ! 1 = shape w ! 1 \<longleftrightarrow> numel a div n = shape lw ! 1)))
       \<and> (\<forall>cw b k s p d. lyr = Conv2d cw b k s p d \<longrightarrow>
            shape w = [numel cw div (fst k * snd k), fst k * snd k] \<and> elems w = elems cw
          \<and> (\<exists>a pt n rest. input_before lib inputs m i = Inr a
                \<and> extract_image_patches lib a k s p d = Inr pt \<and> shape pt = n # rest
                \<and> shape x = [n, numel pt div n] \<and> elems x = elems pt
                \<and> (shape x ! 1 = shape w ! 1 \<longleftrightarrow> numel pt div n = fst k * snd k)))"
proof -
  from assms(1) obtain lyr' a x' where
    l: "py_index (children m) i = Inr lyr'"
    and a: "input_before lib inputs m i = Inr a"
    and wp: "weight_and_patches lib lyr' a = Inr (x', w)"
    and fl: "flatten_batch x' = Inr x"
    by (rule prepare_data_Inr)
  from l assms(2) have lyr: "lyr' = lyr" by simp
  from fl obtain n rest where
    sh: "shape x' = n # rest" "shape x = [n, numel x' div n]" "elems x = elems x'"
    using flatten_batch_shape by blast
  have dense: "w = lw \<and> (\<exists>a n rest. input_before lib inputs m i = Inr a \<and> shape a = n # rest
                \<and> shape x = [n, numel a div n] \<and> elems x = elems a
                \<and> (shape x ! 1 = shape w ! 1 \<longleftrightarrow> numel a div n = shape lw ! 1))"
    if "lyr = Linear lw b" for lw b
  proof -
    from wp lyr that have "x' = a" "w = lw" by simp_all
    with a sh show ?thesis by auto
  qed
  have conv: "shape w = [numel cw div (fst k * snd k), fst k * snd k] \<and> elems w = elems cw
          \<and> (\<exists>a pt n rest. input_before lib inputs m i = Inr a
                \<and> extract_image_patches lib a k s p d = Inr pt \<and> shape pt = n # rest
                \<and> shape x = [n, numel pt div n] \<and> elems x = elems pt
                \<and> (shape x ! 1 = shape w ! 1 \<longleftrightarrow> numel pt div n = fst k * snd k))"
    if "lyr = Conv2d cw b k s p d" for cw b k s p d
  proof -
    from wp lyr that obtain w' where
      v: "view cw [- 1, int (fst k * snd k)] = Inr w'"
      and e: "extract_image_patches lib a k s p d = Inr x'" and w: "w = w'"
      by (auto split: sum.splits)
    from v w have "shape w = [numel cw div (fst k * snd k), fst k * snd k]" "elems w = elems cw"
      using view_cols by blast+
    with a e sh show ?thesis by auto
  qed
  from dense conv show ?thesis by blast
qed

theorem prepare_data_shapes_witness:
  "fst (prepare_data unit_lib image_batch conv_net 0)
     = Inr (\<lparr>shape = [2, 1], elems = [1, - 2]\<rparr>, \<lparr>shape = [1, 1], elems = [2]\<rparr>)
   \<and> py_index (children conv_net) 0 = Inr (Conv2d w_conv None (1, 1) (1, 1) (0, 0) (1, 1))
   \<and> shape \<lparr>shape = [1, 1], elems = [2::int]\<rparr> = [numel w_conv div (1 * 1), 1 * 1]
   \<and> elems \<lparr>shape = [1, 1], elems = [2::int]\<rparr> = elems w_conv"
proof -
  have pd: "fst (prepare_data unit_lib image_batch conv_net 0)
     = Inr (\<lparr>shape = [2, 1], elems = [1, - 2]\<rparr>, \<lparr>shape = [1, 1], elems = [2]\<rparr>)"
    by (simp add: prepare_data_def conv_net_def children_def py_index_def input_before_def
        unit_lib_def unit_patches_def image_batch_def w_conv_def view_def flatten_batch_def
        numel_def)
  have ix: "py_index (children conv_net) 0 = Inr (Conv2d w_conv None (1, 1) (1, 1) (0, 0) (1, 1))"
    by (simp add: conv_net_def children_def py_index_def)
  from prepare_data_shapes [OF pd ix]
  have "shape \<lparr>shape = [1, 1], elems = [2::int]\<rparr> = [numel w_conv div (1 * 1), 1 * 1]
      \<and> elems \<lparr>shape = [1, 1], elems = [2::int]\<rparr> = elems w_conv"
    by auto
  with pd ix show ?thesis by blast
qed

text \<open>
  The statement of the specification fails for a dense layer of three input features that is fed
  a batch of shape \<open>[2, 4, 3]\<close>, which torch's \<open>Linear\<close> accepts: the prepared input has 12
  columns, the weight view 3.
\<close>

theorem prepare_data_shapes_counterexample:
  "fst (prepare_data unit_lib seq_batch seq_model 0) = Inr (seq_batch\<lparr>shape := [2, 12]\<rparr>, w_seq)
   \<and> shape (seq_batch\<lparr>shape := [2, 12]\<rparr>) ! 1 = 12
   \<and> shape w_seq ! 1 = 3"
  by (simp add: prepare_data_def seq_model_def children_def py_index_def input_before_def
      seq_batch_def w_seq_def view_def flatten_batch_def numel_def)

section \<open>The per-batch update: auxiliary facts\<close>

lemma local_step_names:
  "map fst (named_children (local_step opt d nm m)) = map fst (named_children m)"
  by (simp add: local_step_def split_beta option.case_eq_if comp_def)

lemma local_step_length:
  "length (named_children (local_step opt d nm m)) = length (named_children m)"
  by (simp add: local_step_def)

lemma local_step_training:
  "training (local_step opt d nm m) = training m"
  by (simp add: local_step_def)

lemma local_step_other:
  "i < length (named_children m) \<Longrightarrow> fst (named_children m ! i) \<noteq> nm \<Longrightarrow>
     named_children (local_step opt d nm m) ! i = named_children m ! i"
  by (simp add: local_step_def split_beta)

lemma local_step_named:
  "i < length (named_children m) \<Longrightarrow> named_children m ! i = (nm, l) \<Longrightarrow> weight l = Some w \<Longrightarrow>
     named_children (local_step opt d nm m) ! i = (nm, set_weight (apply_delta opt w d) l)"
  by (simp add: local_step_def)

lemma weight_set_weight: "weight (set_weight w l) = Some w"
  by (cases l) simp_all

lemma update_layer_ok:
  assumes "py_index (children m) (int (layer r)) = Inr lyr"
    and "weight lyr = Some lw"
    and "prepare_data lib x m (int (idx r)) = (Inr (inputs, weights), log2)"
    and "resolve_rule lr (name r) = (Inr rule, log3)"
    and "update rule inputs weights = Inr d_p"
    and "view d_p (map int (shape lw)) = Inr d_p'"
  shows "update_layer lib lr opt x r m =
           (None, local_step opt d_p' (name r) m,
            (DEBUG, ''Updating layer '{}' with shape {}.'', [LayerArg (layer r), ShapeArg (shape lw)])
              # log2 @ log3)"
  using assms by (simp add: update_layer_def)

lemma update_layer_missing_rule:
  assumes "py_index (children m) (int (layer r)) = Inr lyr"
    and "weight lyr = Some lw"
    and "prepare_data lib x m (int (idx r)) = (Inr (inputs, weights), log2)"
    and "map_of d (name r) = None"
  shows "update_layer lib (Dict d) opt x r m =
           (Some (KeyError (name r)), m,
            (DEBUG, ''Updating layer '{}' with shape {}.'', [LayerArg (layer r), ShapeArg (shape lw)])
              # log2 @
            [(ERROR, ''No learning rule was specified for layer '{}'!'', [StrArg (name r)])])"
  using assms by (simp add: update_layer_def resolve_rule_def)

lemma update_layers_append:
  "update_layers lib lr opt x (rs @ rs') m =
     (case update_layers lib lr opt x rs m of
        (Some e, m', lg) \<Rightarrow> (Some e, m', lg)
      | (None, m', lg) \<Rightarrow>
          (case update_layers lib lr opt x rs' m' of (res, m'', lg') \<Rightarrow> (res, m'', lg @ lg')))"
proof (induction rs arbitrary: m)
  case Nil
  then show ?case by (simp split: prod.splits)
next
  case (Cons r rs)
  show ?case
    by (simp add: Cons.IH split: prod.splits option.splits)
qed

subsection \<open>The first iteration on the three dense layers\<close>

lemma update_layers_fc1:
  "update_layers unit_lib (Dict [(''fc1'', sum_rule)]) add_optimizer unit_batch [r_fc1]
      (three_dense\<lparr>training := True\<rparr>)
   = (None, three_dense_fc1_updated,
      (DEBUG, ''Updating layer '{}' with shape {}.'', [LayerArg 0, ShapeArg [1, 1]])
        # prepared_log)"
  by (simp add: update_layer_def prepare_data_def three_dense_def children_def py_index_def
      input_before_def unit_batch_def w_fc1_def flatten_batch_def view_def numel_def
      resolve_rule_def sum_rule_def local_step_def add_optimizer_def r_fc1_def
      three_dense_fc1_updated_def prepared_log_def)

lemma prepare_fc2_after_fc1:
  "prepare_data unit_lib unit_batch three_dense_fc1_updated 1 =
      (Inr (\<lparr>shape = [1, 1], elems = [4]\<rparr>, w_fc2), prepared_log)"
  by (simp add: prepare_data_def children_def py_index_def input_before_def py_slice_to_def
      unit_lib_def scale_def unit_batch_def w_fc2_def flatten_batch_def view_def numel_def
      three_dense_fc1_updated_def prepared_log_def)

lemma update_layer_single_fc1:
  "update_layer unit_lib (Single sum_rule) add_optimizer unit_batch r_fc1
      (three_dense\<lparr>training := True\<rparr>)
   = (None, three_dense_fc1_updated, updating_log 0)"
  by (simp add: update_layer_def prepare_data_def three_dense_def children_def py_index_def
      input_before_def unit_batch_def w_fc1_def flatten_batch_def view_def numel_def
      resolve_rule_def sum_rule_def local_step_def add_optimizer_def r_fc1_def
      three_dense_fc1_updated_def prepared_log_def updating_log_def)

lemma update_layer_single_fc2:
  "update_layer unit_lib (Single sum_rule) add_optimizer unit_batch r_fc2 three_dense_fc1_updated
   = (None, three_dense_updated, updating_log 1)"
proof -
  let ?d = "\<lparr>shape = [1, 1], elems = [4::int]\<rparr>"
  have ix: "py_index (children three_dense_fc1_updated) (int (layer r_fc2)) = Inr (Linear w_fc2 None)"
    by (simp add: py_index_def children_def three_dense_fc1_updated_def r_fc2_def)
  have prep: "prepare_data unit_lib unit_batch three_dense_fc1_updated (int (idx r_fc2)) =
      (Inr (?d, w_fc2), prepared_log)"
    using prepare_fc2_after_fc1 by (simp add: r_fc2_def)
  have res: "resolve_rule (Single sum_rule) (name r_fc2) = (Inr sum_rule, [])"
    by (simp add: resolve_rule_def)
  have upd: "update sum_rule ?d w_fc2 = Inr ?d"
    by (simp add: sum_rule_def w_fc2_def)
  have vw: "view ?d (map int (shape w_fc2)) = Inr ?d"
    by (simp add: view_def w_fc2_def numel_def)
  have ls: "local_step add_optimizer ?d (name r_fc2) three_dense_fc1_updated = three_dense_updated"
    by (simp add: local_step_def add_optimizer_def r_fc2_def three_dense_fc1_updated_def
        three_dense_updated_def w_fc2_def)
  have "weight (Linear w_fc2 None) = Some w_fc2" by simp
  from update_layer_ok [OF ix this prep res upd vw, of add_optimizer] ls
  show ?thesis
    by (simp add: updating_log_def r_fc2_def w_fc2_def)
qed

lemma update_layers_single_fc1:
  "update_layers unit_lib (Single sum_rule) add_optimizer unit_batch [r_fc1]
      (three_dense\<lparr>training := True\<rparr>)
   = (None, three_dense_fc1_updated, updating_log 0)"
  by (simp add: update_layer_single_fc1)

lemma update_layers_single_fc1_fc2:
  "update_layers unit_lib (Single sum_rule) add_optimizer unit_batch [r_fc1, r_fc2]
      (three_dense\<lparr>training := True\<rparr>)
   = (None, three_dense_updated, updating_log 0 @ updating_log 1)"
  by (simp add: update_layer_single_fc1 update_layer_single_fc2)

section \<open>A failing update keeps the deltas already applied\<close>

text \<open>
  C5. Two trainable layers, \<open>A\<close> at index 0 and \<open>B\<close> at index 1, and a rule dict with an entry
  for \<open>A\<close> and none for \<open>B\<close>. When the iteration for \<open>A\<close> goes through and \<open>B\<close>'s data is
  prepared, one call of the update raises the \<open>KeyError\<close> for \<open>B\<close> and leaves a model in
  which \<open>A\<close>'s weight is its initial value with one delta applied and \<open>B\<close> is untouched: nothing
  is rolled back.
\<close>

theorem partial_failure_not_rolled_back:
  assumes batch: "prepare_batch batch = (x, y)"
    and m1: "m1 = m\<lparr>training := True\<rparr>"
    and len: "2 \<le> length (named_children m)"
    and A: "named_children m ! 0 = (nA, lA)" "weight lA = Some wA"
    and B: "named_children m ! 1 = (nB, lB)" "weight lB = Some wB"
    and ne: "nA \<noteq> nB"
    and prepA: "prepare_data lib x m1 0 = (Inr (inA, wvA), logA)"
    and ruleA: "map_of d nA = Some ruleA"
    and updA: "update ruleA inA wvA = Inr dA"
    and viewA: "view dA (map int (shape wA)) = Inr dA'"
    and m2: "m2 = local_step opt dA' nA m1"
    and prepB: "prepare_data lib x m2 1 = (Inr (inB, wvB), logB)"
    and ruleB: "map_of d nB = None"
  shows "batch_update lib (Dict d) opt prepare_batch output_transform
            [\<lparr>idx = 0, name = nA, layer = 0\<rparr>, \<lparr>idx = 1, name = nB, layer = 1\<rparr>] m batch
          = (Inl (KeyError nB), m2,
             (DEBUG, ''Updating layer '{}' with shape {}.'', [LayerArg 0, ShapeArg (shape wA)])
               # logA @
             (DEBUG, ''Updating layer '{}' with shape {}.'', [LayerArg 1, ShapeArg (shape wB)])
               # logB @
             [(ERROR, ''No learning rule was specified for layer '{}'!'', [StrArg nB])])
       \<and> named_children m2 ! 0 = (nA, set_weight (apply_delta opt wA dA') lA)
       \<and> weight (snd (named_children m2 ! 0)) = Some (apply_delta opt wA dA')
       \<and> named_children m2 ! 1 = (nB, lB)"
proof -
  let ?rA = "\<lparr>idx = 0, name = nA, layer = 0\<rparr>" and ?rB = "\<lparr>idx = 1, name = nB, layer = 1\<rparr>"
  have nc1: "named_children m1 = named_children m"
    by (simp add: m1)
  have l0: "0 < length (named_children m1)" and l1: "1 < length (named_children m1)"
    using len by (auto simp: nc1)
  have ixA: "py_index (children m1) (int (layer ?rA)) = Inr lA"
    using l0 A by (simp add: py_index_def children_def nc1)
  have stepA: "update_layer lib (Dict d) opt x ?rA m1 =
      (None, m2,
       (DEBUG, ''Updating layer '{}' with shape {}.'', [LayerArg 0, ShapeArg (shape wA)]) # logA @ [])"
    using update_layer_ok [OF ixA A(2), of lib x inA wvA logA "Dict d" ruleA "[]" dA dA' opt]
      prepA ruleA updA viewA
    by (simp add: resolve_rule_def m2)
  have a0: "named_children m2 ! 0 = (nA, set_weight (apply_delta opt wA dA') lA)"
    unfolding m2 using A by (intro local_step_named [OF l0]) (simp_all add: nc1)
  have b1: "named_children m2 ! 1 = (nB, lB)"
    unfolding m2 using B ne local_step_other [OF l1, of nA opt dA'] by (simp add: nc1)
  have len2: "length (named_children m2) = length (named_children m)"
    by (simp add: m2 local_step_length nc1)
  have ixB: "py_index (children m2) (int (layer ?rB)) = Inr lB"
    using l1 b1 len2 by (simp add: py_index_def children_def nc1)
  have stepB: "update_layer lib (Dict d) opt x ?rB m2 =
      (Some (KeyError nB), m2,
       (DEBUG, ''Updating layer '{}' with shape {}.'', [LayerArg 1, ShapeArg (shape wB)]) # logB @
       [(ERROR, ''No learning rule was specified for layer '{}'!'', [StrArg nB])])"
    using update_layer_missing_rule [OF ixB B(2), of lib x inB wvB logB d opt] prepB ruleB
    by simp
  have "batch_update lib (Dict d) opt prepare_batch output_transform [?rA, ?rB] m batch
          = (Inl (KeyError nB), m2,
             (DEBUG, ''Updating layer '{}' with shape {}.'', [LayerArg 0, ShapeArg (shape wA)])
               # logA @
             (DEBUG, ''Updating layer '{}' with shape {}.'', [LayerArg 1, ShapeArg (shape wB)])
               # logB @
             [(ERROR, ''No learning rule was specified for layer '{}'!'', [StrArg nB])])"
    using stepA stepB batch by (simp add: batch_update_def m1 [symmetric])
  with a0 b1 show ?thesis
    by (simp add: weight_set_weight)
qed

theorem partial_failure_not_rolled_back_witness:
  "batch_update unit_lib (Dict [(''fc1'', sum_rule)]) add_optimizer (\<lambda>b. b) (\<lambda>x y. 0::int)
      [\<lparr>idx = 0, name = ''fc1'', layer = 0\<rparr>, \<lparr>idx = 1, name = ''fc2'', layer = 1\<rparr>]
      three_dense (unit_batch, [7::nat])
    = (Inl (KeyError ''fc2''),
       \<lparr>named_children =
          [(''fc1'', Linear \<lparr>shape = [1, 1], elems = [4]\<rparr> None),
           (''fc2'', Linear w_fc2 None), (''out'', Linear w_out None)],
        training = True\<rparr>,
       [(DEBUG, ''Updating layer '{}' with shape {}.'', [LayerArg 0, ShapeArg [1, 1]]),
        (DEBUG, ''Prepared inputs and weights with shapes {} and {}.'',
         [ShapeArg [1, 1], ShapeArg [1, 1]]),
        (DEBUG, ''Updating layer '{}' with shape {}.'', [LayerArg 1, ShapeArg [1, 1]]),
        (DEBUG, ''Prepared inputs and weights with shapes {} and {}.'',
         [ShapeArg [1, 1], ShapeArg [1, 1]]),
        (ERROR, ''No learning rule was specified for layer '{}'!'', [StrArg ''fc2''])])"
proof -
  let ?m1 = "three_dense\<lparr>training := True\<rparr>"
  let ?d = "\<lparr>shape = [1, 1], elems = [1::int]\<rparr>"
  let ?m2 = "\<lparr>named_children =
          [(''fc1'', Linear \<lparr>shape = [1, 1], elems = [4]\<rparr> None),
           (''fc2'', Linear w_fc2 None), (''out'', Linear w_out None)],
        training = True\<rparr>"
  let ?lg = "[(DEBUG, ''Prepared inputs and weights with shapes {} and {}.'',
         [ShapeArg [1, 1], ShapeArg [1, 1]])]"
  have m2: "?m2 = local_step add_optimizer ?d ''fc1'' ?m1"
    by (simp add: local_step_def three_dense_def add_optimizer_def w_fc1_def)
  have prepA: "prepare_data unit_lib unit_batch ?m1 0 = (Inr (unit_batch, w_fc1), ?lg)"
    by (simp add: prepare_data_def three_dense_def children_def py_index_def input_before_def
        unit_batch_def w_fc1_def flatten_batch_def view_def numel_def)
  have prepB: "prepare_data unit_lib unit_batch ?m2 1 =
      (Inr (\<lparr>shape = [1, 1], elems = [4]\<rparr>, w_fc2), ?lg)"
    by (simp add: prepare_data_def children_def py_index_def input_before_def py_slice_to_def
        unit_lib_def scale_def unit_batch_def w_fc2_def flatten_batch_def view_def numel_def)
  have "batch_update unit_lib (Dict [(''fc1'', sum_rule)]) add_optimizer (\<lambda>b. b) (\<lambda>x y. 0::int)
      [\<lparr>idx = 0, name = ''fc1'', layer = 0\<rparr>, \<lparr>idx = 1, name = ''fc2'', layer = 1\<rparr>]
      three_dense (unit_batch, [7::nat])
    = (Inl (KeyError ''fc2''), ?m2,
       (DEBUG, ''Updating layer '{}' with shape {}.'', [LayerArg 0, ShapeArg (shape w_fc1)])
         # ?lg @
       (DEBUG, ''Updating layer '{}' with shape {}.'', [LayerArg 1, ShapeArg (shape w_fc2)])
         # ?lg @
       [(ERROR, ''No learning rule was specified for layer '{}'!'', [StrArg ''fc2''])])"
  proof (rule conjunct1 [OF partial_failure_not_rolled_back
        [where lA = "Linear w_fc1 None" and lB = "Linear w_fc2 None" and ruleA = sum_rule
           and dA = ?d and dA' = ?d and ?m1.0 = ?m1 and inA = unit_batch and wvA = w_fc1
           and inB = "\<lparr>shape = [1, 1], elems = [4]\<rparr>" and wvB = w_fc2]])
    show "(\<lambda>b. b) (unit_batch, [7::nat]) = (unit_batch, [7])" by simp
    show "?m1 = three_dense\<lparr>training := True\<rparr>" by simp
    show "2 \<le> length (named_children three_dense)" by (simp add: three_dense_def)
    show "named_children three_dense ! 0 = (''fc1'', Linear w_fc1 None)"
      by (simp add: three_dense_def)
    show "weight (Linear w_fc1 None) = Some w_fc1" by simp
    show "named_children three_dense ! 1 = (''fc2'', Linear w_fc2 None)"
      by (simp add: three_dense_def)
    show "weight (Linear w_fc2 None) = Some w_fc2" by simp
    show "''fc1'' \<noteq> ''fc2''" by simp
    show "prepare_data unit_lib unit_batch ?m1 0 = (Inr (unit_batch, w_fc1), ?lg)"
      by (rule prepA)
    show "map_of [(''fc1'', sum_rule)] ''fc1'' = Some sum_rule" by simp
    show "update sum_rule unit_batch w_fc1 = Inr ?d"
      by (simp add: sum_rule_def unit_batch_def w_fc1_def)
    show "view ?d (map int (shape w_fc1)) = Inr ?d"
      by (simp add: view_def w_fc1_def numel_def)
    show "?m2 = local_step add_optimizer ?d ''fc1'' ?m1" by (rule m2)
    show "prepare_data unit_lib unit_batch ?m2 1 =
      (Inr (\<lparr>shape = [1, 1], elems = [4]\<rparr>, w_fc2), ?lg)"
      by (rule prepB)
    show "map_of [(''fc1'', sum_rule)] ''fc2'' = None" by simp
  qed
  then show ?thesis
    by (simp add: w_fc1_def w_fc2_def)
qed

section \<open>Resolution of the learning rule\<close>

text \<open>
  C6. A single rule is the rule of every layer. With a dict the rule is the entry of the
  layer's name; when there is none, the lookup logs one record at error level and raises
  \<open>KeyError\<close>. The update does not catch it: when the loop reaches such a layer, the call
  ends with that error, the layers after it are not visited, and the error record is the
  last of the log.
\<close>

theorem missing_rule_is_fatal:
  "resolve_rule (Single rule) nm = (Inr rule, [])
   \<and> (map_of d nm = Some rule \<longrightarrow> resolve_rule (Dict d) nm = (Inr rule, []))
   \<and> (map_of d nm = None \<longrightarrow>
        resolve_rule (Dict d) nm =
          (Inl (KeyError nm),
           [(ERROR, ''No learning rule was specified for layer '{}'!'', [StrArg nm])]))
   \<and> (prepare_batch batch = (x, y)
        \<and> update_layers lib (Dict d) opt x rs (m\<lparr>training := True\<rparr>) = (None, m', lg)
        \<and> py_index (children m') (int (layer r)) = Inr lyr \<and> weight lyr = Some lw
        \<and> prepare_data lib x m' (int (idx r)) = (Inr (inputs, weights), log2)
        \<and> map_of d (name r) = None
      \<longrightarrow> batch_update lib (Dict d) opt prepare_batch output_transform (rs @ r # rest) m batch
            = (Inl (KeyError (name r)), m',
               lg @ (DEBUG, ''Updating layer '{}' with shape {}.'',
                      [LayerArg (layer r), ShapeArg (shape lw)]) # log2 @
               [(ERROR, ''No learning rule was specified for layer '{}'!'', [StrArg (name r)])]))"
proof -
  have a: "resolve_rule (Single rule) nm = (Inr rule, [])"
    by (simp add: resolve_rule_def)
  have b: "map_of d nm = Some rule \<longrightarrow> resolve_rule (Dict d) nm = (Inr rule, [])"
    by (simp add: resolve_rule_def)
  have c: "map_of d nm = None \<longrightarrow>
        resolve_rule (Dict d) nm =
          (Inl (KeyError nm),
           [(ERROR, ''No learning rule was specified for layer '{}'!'', [StrArg nm])])"
    by (simp add: resolve_rule_def)
  have e: "batch_update lib (Dict d) opt prepare_batch output_transform (rs @ r # rest) m batch
            = (Inl (KeyError (name r)), m',
               lg @ (DEBUG, ''Updating layer '{}' with shape {}.'',
                      [LayerArg (layer r), ShapeArg (shape lw)]) # log2 @
               [(ERROR, ''No learning rule was specified for layer '{}'!'', [StrArg (name r)])])"
    if pb: "prepare_batch batch = (x, y)"
      and before: "update_layers lib (Dict d) opt x rs (m\<lparr>training := True\<rparr>) = (None, m', lg)"
      and ix: "py_index (children m') (int (layer r)) = Inr lyr" and w: "weight lyr = Some lw"
      and prep: "prepare_data lib x m' (int (idx r)) = (Inr (inputs, weights), log2)"
      and none: "map_of d (name r) = None"
  proof -
    note step = update_layer_missing_rule [OF ix w prep none, of opt]
    have "update_layers lib (Dict d) opt x (rs @ r # rest) (m\<lparr>training := True\<rparr>)
        = (Some (KeyError (name r)), m',
           lg @ (DEBUG, ''Updating layer '{}' with shape {}.'',
                  [LayerArg (layer r), ShapeArg (shape lw)]) # log2 @
           [(ERROR, ''No learning rule was specified for layer '{}'!'', [StrArg (name r)])])"
      by (simp add: update_layers_append before step)
    with pb show ?thesis
      by (simp add: batch_update_def)
  qed
  from a b c e show ?thesis by blast
qed

theorem missing_rule_is_fatal_witness:
  "resolve_rule (Dict [(''fc1'', sum_rule)]) ''fc2''
     = (Inl (KeyError ''fc2''),
        [(ERROR, ''No learning rule was specified for layer '{}'!'', [StrArg ''fc2''])])
   \<and> batch_update unit_lib (Dict [(''fc1'', sum_rule)]) add_optimizer (\<lambda>b. b) (\<lambda>x y. 0::int)
        [r_fc1, r_fc2, r_out] three_dense (unit_batch, [7::nat])
     = (Inl (KeyError ''fc2''), three_dense_fc1_updated,
        ((DEBUG, ''Updating layer '{}' with shape {}.'', [LayerArg 0, ShapeArg [1, 1]])
           # prepared_log) @
        (DEBUG, ''Updating layer '{}' with shape {}.'', [LayerArg 1, ShapeArg [1, 1]])
           # prepared_log @
        [(ERROR, ''No learning rule was specified for layer '{}'!'', [StrArg ''fc2''])])"
proof -
  note fatal = missing_rule_is_fatal
    [where d = "[(''fc1'', sum_rule)]" and nm = "''fc2''" and prepare_batch = "\<lambda>b. b"
       and batch = "(unit_batch, [7::nat])" and x = unit_batch and y = "[7::nat]"
       and lib = unit_lib and opt = add_optimizer and rs = "[r_fc1]" and m = three_dense
       and m' = three_dense_fc1_updated
       and lg = "(DEBUG, ''Updating layer '{}' with shape {}.'', [LayerArg 0, ShapeArg [1, 1]])
                   # prepared_log"
       and r = r_fc2 and lyr = "Linear w_fc2 None" and lw = w_fc2
       and inputs = "\<lparr>shape = [1, 1], elems = [4]\<rparr>" and weights = w_fc2
       and ?log2.0 = prepared_log and rest = "[r_out]" and output_transform = "\<lambda>x y. 0::int"]
  have none: "map_of [(''fc1'', sum_rule)] ''fc2'' = None" by simp
  have one: "resolve_rule (Dict [(''fc1'', sum_rule)]) ''fc2''
     = (Inl (KeyError ''fc2''),
        [(ERROR, ''No learning rule was specified for layer '{}'!'', [StrArg ''fc2''])])"
    using fatal none by blast
  have ix: "py_index (children three_dense_fc1_updated) (int (layer r_fc2)) = Inr (Linear w_fc2 None)"
    by (simp add: py_index_def children_def three_dense_fc1_updated_def r_fc2_def)
  have prep: "prepare_data unit_lib unit_batch three_dense_fc1_updated (int (idx r_fc2)) =
      (Inr (\<lparr>shape = [1, 1], elems = [4]\<rparr>, w_fc2), prepared_log)"
    using prepare_fc2_after_fc1 by (simp add: r_fc2_def)
  have nm: "map_of [(''fc1'', sum_rule)] (name r_fc2) = None"
    by (simp add: r_fc2_def)
  have "batch_update unit_lib (Dict [(''fc1'', sum_rule)]) add_optimizer (\<lambda>b. b) (\<lambda>x y. 0::int)
        ([r_fc1] @ r_fc2 # [r_out]) three_dense (unit_batch, [7::nat])
     = (Inl (KeyError (name r_fc2)), three_dense_fc1_updated,
        ((DEBUG, ''Updating layer '{}' with shape {}.'', [LayerArg 0, ShapeArg [1, 1]])
           # prepared_log) @
        (DEBUG, ''Updating layer '{}' with shape {}.'', [LayerArg (layer r_fc2), ShapeArg (shape w_fc2)])
           # prepared_log @
        [(ERROR, ''No learning rule was specified for layer '{}'!'', [StrArg (name r_fc2)])])"
    using fatal update_layers_fc1 ix prep nm by simp
  then have two: "batch_update unit_lib (Dict [(''fc1'', sum_rule)]) add_optimizer (\<lambda>b. b) (\<lambda>x y. 0::int)
        [r_fc1, r_fc2, r_out] three_dense (unit_batch, [7::nat])
     = (Inl (KeyError ''fc2''), three_dense_fc1_updated,
        ((DEBUG, ''Updating layer '{}' with shape {}.'', [LayerArg 0, ShapeArg [1, 1]])
           # prepared_log) @
        (DEBUG, ''Updating layer '{}' with shape {}.'', [LayerArg 1, ShapeArg [1, 1]])
           # prepared_log @
        [(ERROR, ''No learning rule was specified for layer '{}'!'', [StrArg ''fc2''])])"
    by (simp add: r_fc2_def w_fc2_def)
  from one two show ?thesis by blast
qed

section \<open>Labels\<close>

text \<open>
  C8. Two batches whose prepared inputs are the same leave the same model and the same log,
  and fail or succeed alike, whatever their labels: the labels reach \<open>output_transform\<close> only.
  A constructed trainer, whose \<open>output_transform\<close> is the constant 0, does not tell such
  batches apart at all.
\<close>

theorem labels_do_not_reach_the_weights:
  assumes "fst (prepare_batch b1) = fst (prepare_batch b2)"
  shows "snd (batch_update lib lr opt prepare_batch output_transform lyrs m b1)
           = snd (batch_update lib lr opt prepare_batch output_transform lyrs m b2)
       \<and> isl (fst (batch_update lib lr opt prepare_batch output_transform lyrs m b1))
           = isl (fst (batch_update lib lr opt prepare_batch output_transform lyrs m b2))
       \<and> trainer_update lib prepare_batch t b1 = trainer_update lib prepare_batch t b2"
proof -
  obtain x y1 where p1: "prepare_batch b1 = (x, y1)" by (cases "prepare_batch b1")
  with assms obtain y2 where p2: "prepare_batch b2 = (x, y2)" by (cases "prepare_batch b2") simp
  show ?thesis
    by (simp add: batch_update_def trainer_update_def p1 p2 split: prod.splits option.splits)
qed

theorem labels_do_not_reach_the_weights_witness:
  "snd (batch_update unit_lib (Single sum_rule) add_optimizer (\<lambda>b. b) (\<lambda>x y. sum_list y)
          [r_fc1, r_fc2] three_dense (unit_batch, [0::int]))
     = snd (batch_update unit_lib (Single sum_rule) add_optimizer (\<lambda>b. b) (\<lambda>x y. sum_list y)
          [r_fc1, r_fc2] three_dense (unit_batch, [1::int]))
   \<and> fst (batch_update unit_lib (Single sum_rule) add_optimizer (\<lambda>b. b) (\<lambda>x y. sum_list y)
          [r_fc1, r_fc2] three_dense (unit_batch, [1::int])) = Inr 1
   \<and> fst (batch_update unit_lib (Single sum_rule) add_optimizer (\<lambda>b. b) (\<lambda>x y. sum_list y)
          [r_fc1, r_fc2] three_dense (unit_batch, [0::int])) = Inr 0"
proof -
  have same: "fst ((\<lambda>b. b) (unit_batch, [0::int])) = fst ((\<lambda>b. b) (unit_batch, [1::int]))"
    by simp
  note eq = labels_do_not_reach_the_weights
    [where prepare_batch = "\<lambda>b. b" and ?b1.0 = "(unit_batch, [0::int])"
       and ?b2.0 = "(unit_batch, [1::int])" and lib = unit_lib and lr = "Single sum_rule"
       and opt = add_optimizer and output_transform = "\<lambda>x y. sum_list y"
       and lyrs = "[r_fc1, r_fc2]" and m = three_dense, OF same]
  have run: "\<And>ys. fst (batch_update unit_lib (Single sum_rule) add_optimizer (\<lambda>b. b)
          (\<lambda>x y. sum_list y) [r_fc1, r_fc2] three_dense (unit_batch, ys :: int list))
       = Inr (sum_list ys)"
    by (simp add: batch_update_def update_layer_def prepare_data_def three_dense_def children_def
      py_index_def input_before_def py_slice_to_def unit_lib_def scale_def unit_batch_def
      w_fc1_def w_fc2_def flatten_batch_def view_def numel_def resolve_rule_def sum_rule_def
      local_step_def add_optimizer_def r_fc1_def r_fc2_def)
  from eq run [of "[0]"] run [of "[1]"] show ?thesis by simp
qed

section \<open>Which weights the replay of a later layer sees\<close>

lemma update_layer_None:
  assumes "update_layer lib lr opt x r m = (None, m', lg)"
  shows "\<exists>lyr lw inputs weights log2 rule d_p d_p'.
           py_index (children m) (int (layer r)) = Inr lyr \<and> weight lyr = Some lw
         \<and> prepare_data lib x m (int (idx r)) = (Inr (inputs, weights), log2)
         \<and> fst (resolve_rule lr (name r)) = Inr rule
         \<and> update rule inputs weights = Inr d_p
         \<and> view d_p (map int (shape lw)) = Inr d_p'
         \<and> m' = local_step opt d_p' (name r) m"
  using assms
  by (auto simp: update_layer_def Let_def split: sum.splits option.splits prod.splits)

text \<open>
  C1, as the code has it. The data of a layer is prepared inside the loop, at the layer's
  turn. When the iterations for the records \<open>rs\<close> have left the model \<open>m'\<close>, the prepared
  input of the next record \<open>r\<close> is computed by \<open>_prepare_data\<close> on \<open>m'\<close>, the model with the
  deltas of this batch already applied to the earlier layers, and the delta of \<open>r\<close> is the
  rule's answer to that prepared input.
\<close>

theorem prepared_input_sees_earlier_deltas:
  assumes "update_layers lib lr opt x rs m = (None, m', lg)"
    and "update_layers lib lr opt x (rs @ [r]) m = (None, m'', lg')"
  shows "\<exists>lyr lw inputs weights log2 rule d_p d_p'.
           py_index (children m') (int (layer r)) = Inr lyr \<and> weight lyr = Some lw
         \<and> prepare_data lib x m' (int (idx r)) = (Inr (inputs, weights), log2)
         \<and> fst (resolve_rule lr (name r)) = Inr rule
         \<and> update rule inputs weights = Inr d_p
         \<and> view d_p (map int (shape lw)) = Inr d_p'
         \<and> m'' = local_step opt d_p' (name r) m'"
proof -
  from assms have "\<exists>lg2. update_layer lib lr opt x r m' = (None, m'', lg2)"
    by (auto simp: update_layers_append split: prod.splits option.splits)
  then show ?thesis
    using update_layer_None by blast
qed

theorem prepared_input_sees_earlier_deltas_witness:
  "update_layers unit_lib (Single sum_rule) add_optimizer unit_batch [r_fc1]
      (three_dense\<lparr>training := True\<rparr>) = (None, three_dense_fc1_updated, updating_log 0)
   \<and> update_layers unit_lib (Single sum_rule) add_optimizer unit_batch ([r_fc1] @ [r_fc2])
      (three_dense\<lparr>training := True\<rparr>)
       = (None, three_dense_updated, updating_log 0 @ updating_log 1)
   \<and> (\<exists>lyr lw inputs weights log2 rule d_p d_p'.
           py_index (children three_dense_fc1_updated) (int (layer r_fc2)) = Inr lyr
         \<and> weight lyr = Some lw
         \<and> prepare_data unit_lib unit_batch three_dense_fc1_updated (int (idx r_fc2))
             = (Inr (inputs, weights), log2)
         \<and> fst (resolve_rule (Single sum_rule) (name r_fc2)) = Inr rule
         \<and> update rule inputs weights = Inr d_p
         \<and> view d_p (map int (shape lw)) = Inr d_p'
         \<and> three_dense_updated = local_step add_optimizer d_p' (name r_fc2) three_dense_fc1_updated)"
proof -
  have two: "update_layers unit_lib (Single sum_rule) add_optimizer unit_batch ([r_fc1] @ [r_fc2])
      (three_dense\<lparr>training := True\<rparr>)
       = (None, three_dense_updated, updating_log 0 @ updating_log 1)"
    using update_layers_single_fc1_fc2 by simp
  from prepared_input_sees_earlier_deltas [OF update_layers_single_fc1 two]
    update_layers_single_fc1 two
  show ?thesis by blast
qed

text \<open>
  The statement of the specification fails on three dense layers of one feature with a rule whose
  delta is the sum of the prepared inputs. A replay frozen at the start of the batch would
  give \<open>fc2\<close> the input \<open>[[3]]\<close>; after the delta \<open>[[1]]\<close> of the same batch was added to
  \<open>fc1\<close>, the update prepares \<open>[[4]]\<close>, and \<open>fc2\<close> ends at \<open>5 + 4\<close>.
\<close>

theorem frozen_replay_counterexample:
  "trainable_layers three_dense (- 1) None = [r_fc1, r_fc2]
   \<and> fst (prepare_data unit_lib unit_batch (three_dense\<lparr>training := True\<rparr>) 1)
       = Inr (\<lparr>shape = [1, 1], elems = [3]\<rparr>, w_fc2)
   \<and> update_layers unit_lib (Single sum_rule) add_optimizer unit_batch [r_fc1]
        (three_dense\<lparr>training := True\<rparr>) = (None, three_dense_fc1_updated, updating_log 0)
   \<and> fst (prepare_data unit_lib unit_batch three_dense_fc1_updated 1)
       = Inr (\<lparr>shape = [1, 1], elems = [4]\<rparr>, w_fc2)
   \<and> batch_update unit_lib (Single sum_rule) add_optimizer (\<lambda>b. b) (\<lambda>x y. 0::int)
        [r_fc1, r_fc2] three_dense (unit_batch, [7::nat])
       = (Inr 0, three_dense_updated, updating_log 0 @ updating_log 1)
   \<and> weight (snd (named_children three_dense_updated ! 1)) = Some \<lparr>shape = [1, 1], elems = [9]\<rparr>"
proof -
  have a: "trainable_layers three_dense (- 1) None = [r_fc1, r_fc2]"
    by (simp add: trainable_layers_def three_dense_def py_slice_to_def get_freeze_layers_def
        r_fc1_def r_fc2_def)
  have b: "fst (prepare_data unit_lib unit_batch (three_dense\<lparr>training := True\<rparr>) 1)
       = Inr (\<lparr>shape = [1, 1], elems = [3]\<rparr>, w_fc2)"
    by (simp add: prepare_data_def three_dense_def children_def py_index_def input_before_def
        py_slice_to_def unit_lib_def scale_def unit_batch_def w_fc1_def w_fc2_def
        flatten_batch_def view_def numel_def)
  have c: "fst (prepare_data unit_lib unit_batch three_dense_fc1_updated 1)
       = Inr (\<lparr>shape = [1, 1], elems = [4]\<rparr>, w_fc2)"
    by (simp add: prepare_fc2_after_fc1)
  have d: "batch_update unit_lib (Single sum_rule) add_optimizer (\<lambda>b. b) (\<lambda>x y. 0::int)
        [r_fc1, r_fc2] three_dense (unit_batch, [7::nat])
       = (Inr 0, three_dense_updated, updating_log 0 @ updating_log 1)"
    by (simp add: batch_update_def update_layer_single_fc1 update_layer_single_fc2)
  have e: "weight (snd (named_children three_dense_updated ! 1))
       = Some \<lparr>shape = [1, 1], elems = [9]\<rparr>"
    by (simp add: three_dense_updated_def)
  from a b update_layers_single_fc1 c d e show ?thesis by blast
qed

section \<open>Initialisation of the weights at construction\<close>

lemma init_rules_foldl:
  "init_rules rules lyrs m = foldl (\<lambda>m' rule. init_layers rule lyrs m') m rules"
  by (induction rules arbitrary: m) simp_all

lemma init_rules_snoc:
  "init_rules (rules @ [rule]) lyrs m = init_layers rule lyrs (init_rules rules lyrs m)"
  by (induction rules arbitrary: m) simp_all

lemma init_rules_overwritten:
  assumes "\<forall>rule \<in> set rules. \<forall>m'. init_layers final lyrs (init_layers rule lyrs m') = init_layers final lyrs m'"
  shows "init_layers final lyrs (init_rules rules lyrs m) = init_layers final lyrs m"
  using assms by (induction rules arbitrary: m) simp_all

lemma set_weight_twice: "set_weight w (set_weight w' l) = set_weight w l"
  by (cases l) simp_all

lemma fill_layers_overwrites:
  "fill_layers c lyrs (fill_layers c' lyrs m) = fill_layers c lyrs m"
proof -
  let ?f = "\<lambda>c (nm, l). if nm \<in> set (map name lyrs)
                then (case weight l of
                        None \<Rightarrow> (nm, l)
                      | Some w \<Rightarrow> (nm, set_weight (w\<lparr>elems := map (\<lambda>v. c) (elems w)\<rparr>) l))
                else (nm, l)"
  have "?f c (?f c' p) = ?f c p" for p
  proof (cases p)
    case (Pair nm l)
    then show ?thesis
      by (cases "weight l") (simp_all add: weight_set_weight set_weight_twice comp_def)
  qed
  then have "map (?f c) (map (?f c') (named_children m)) = map (?f c) (named_children m)"
    by (simp only: map_map comp_def)
  then show ?thesis
    by (simp add: fill_layers_def)
qed

text \<open>
  C9. With a dict of rules, construction runs \<open>init_layers\<close> of every rule of the dict, in
  the order of the dict, and hands each of them the whole list of trainable layers, whatever
  name the rule is entered under. When initialising overwrites what an earlier
  initialisation left, the model of the trainer is the one the last rule of the dict
  initialises: the rules before it, and the names of the entries, leave no trace.
\<close>

theorem init_layers_runs_for_every_rule:
  "layers (fst (HebbianTrainer_init m (Dict d) opt sup_from freeze))
     = trainable_layers m sup_from freeze
   \<and> model (fst (HebbianTrainer_init m (Dict d) opt sup_from freeze))
     = foldl (\<lambda>m' rule. init_layers rule (trainable_layers m sup_from freeze) m') m (map snd d)
   \<and> (d \<noteq> []
        \<and> (\<forall>rule \<in> set (map snd d). \<forall>m'.
              init_layers (snd (last d)) (trainable_layers m sup_from freeze)
                (init_layers rule (trainable_layers m sup_from freeze) m')
              = init_layers (snd (last d)) (trainable_layers m sup_from freeze) m')
      \<longrightarrow> model (fst (HebbianTrainer_init m (Dict d) opt sup_from freeze))
            = init_layers (snd (last d)) (trainable_layers m sup_from freeze) m)"
proof -
  let ?L = "trainable_layers m sup_from freeze"
  have mdl: "model (fst (HebbianTrainer_init m (Dict d) opt sup_from freeze))
      = init_rules (map snd d) ?L m"
    by (simp add: HebbianTrainer_init_def Let_def)
  have lys: "layers (fst (HebbianTrainer_init m (Dict d) opt sup_from freeze)) = ?L"
    by (simp add: HebbianTrainer_init_def Let_def)
  have last_wins: "init_rules (map snd d) ?L m = init_layers (snd (last d)) ?L m"
    if ne: "d \<noteq> []"
      and ow: "\<forall>rule \<in> set (map snd d). \<forall>m'.
              init_layers (snd (last d)) ?L (init_layers rule ?L m')
              = init_layers (snd (last d)) ?L m'"
  proof -
    from ne have split: "map snd d = map snd (butlast d) @ [snd (last d)]"
      by (metis append_butlast_last_id list.simps(8,9) map_append)
    have "set (map snd (butlast d)) \<subseteq> set (map snd d)"
      by (auto dest: in_set_butlastD)
    with ow have "\<forall>rule \<in> set (map snd (butlast d)). \<forall>m'.
              init_layers (snd (last d)) ?L (init_layers rule ?L m')
              = init_layers (snd (last d)) ?L m'"
      by blast
    then have "init_layers (snd (last d)) ?L (init_rules (map snd (butlast d)) ?L m)
        = init_layers (snd (last d)) ?L m"
      by (rule init_rules_overwritten)
    then show ?thesis
      by (subst split) (simp add: init_rules_snoc)
  qed
  from mdl lys last_wins show ?thesis
    by (simp add: init_rules_foldl)
qed

theorem init_layers_runs_for_every_rule_witness:
  "layers (fst (HebbianTrainer_init three_dense
             (Dict [(''fc1'', fill_rule 7), (''fc2'', fill_rule 9)]) add_optimizer (- 1) None))
     = [r_fc1, r_fc2]
   \<and> model (fst (HebbianTrainer_init three_dense
             (Dict [(''fc1'', fill_rule 7), (''fc2'', fill_rule 9)]) add_optimizer (- 1) None))
     = three_dense_nines"
proof -
  let ?d = "[(''fc1'', fill_rule 7), (''fc2'', fill_rule 9)]"
  let ?L = "trainable_layers three_dense (- 1) None"
  note runs = init_layers_runs_for_every_rule [of three_dense ?d add_optimizer "- 1" None]
  have L: "?L = [r_fc1, r_fc2]"
    by (simp add: trainable_layers_def three_dense_def py_slice_to_def get_freeze_layers_def
        r_fc1_def r_fc2_def)
  have ne: "?d \<noteq> []" by simp
  have ow: "\<forall>rule \<in> set (map snd ?d). \<forall>m'.
              init_layers (snd (last ?d)) ?L (init_layers rule ?L m')
              = init_layers (snd (last ?d)) ?L m'"
    by (simp add: fill_rule_def fill_layers_overwrites)
  from runs ne ow have
    "model (fst (HebbianTrainer_init three_dense (Dict ?d) add_optimizer (- 1) None))
       = init_layers (snd (last ?d)) ?L three_dense"
    by blast
  also have "\<dots> = three_dense_nines"
    unfolding L
    by (simp add: fill_rule_def fill_layers_def three_dense_def three_dense_nines_def
        r_fc1_def r_fc2_def w_fc1_def w_fc2_def)
  finally have mdl: "model (fst (HebbianTrainer_init three_dense (Dict ?d) add_optimizer (- 1) None))
       = three_dense_nines" .
  from runs L have "layers (fst (HebbianTrainer_init three_dense (Dict ?d) add_optimizer (- 1) None))
     = [r_fc1, r_fc2]"
    by simp
  with mdl show ?thesis by blast
qed

section \<open>The engine trains the last \<open>Linear\<close> child only\<close>











end
